theory Spec2Isabelle
  imports Complex_Main
begin

section \<open>Procedural music engine: data model\<close>

text \<open>
  The engine is the TypeScript class \<open>AudioEngine\<close>. JavaScript numbers are modelled as
  follows: counters that start at zero and are only incremented or reset (\<open>current16thNote\<close>,
  \<open>globalBar\<close>, array lengths) are \<open>nat\<close>; scale degrees and semitone offsets are \<open>int\<close>;
  every other number (times, frequencies, ratios) is a \<open>real\<close>, so rounding of IEEE doubles is
  not represented. A value that JavaScript would hold as \<open>undefined\<close> or \<open>NaN\<close> is \<open>None\<close>.
\<close>

datatype MusicStyle = techno | ambient | industrial | house | glitch | symphony | easy_listening

datatype SynthType = sawtooth | square | sine | triangle

record SonicParameters =
  bpm :: real
  complexity :: real
  darkness :: real
  space :: real
  synthType :: SynthType
  baseNoteFrequency :: real
  style :: MusicStyle

text \<open>The fields \<open>x\<close> and \<open>y\<close> of \<open>HandGestures\<close> are named \<open>gx\<close> and \<open>gy\<close> here.\<close>

record HandGestures =
  gx :: real
  gy :: real
  isPinching :: bool
  isFist :: bool
  isPalmOpen :: bool
  isVisible :: bool

subsection \<open>Music theory tables\<close>

definition SCALES_minor :: "int list" where
  "SCALES_minor = [0, 2, 3, 5, 7, 8, 10]"

definition SCALES_major :: "int list" where
  "SCALES_major = [0, 2, 4, 5, 7, 9, 11]"

definition SCALES_phrygian :: "int list" where
  "SCALES_phrygian = [0, 1, 3, 5, 7, 8, 10]"

definition SCALES_dorian :: "int list" where
  "SCALES_dorian = [0, 2, 3, 5, 7, 9, 10]"

definition SCALES_pentatonic :: "int list" where
  "SCALES_pentatonic = [0, 3, 5, 7, 10]"

definition SCALES_harmonic_minor :: "int list" where
  "SCALES_harmonic_minor = [0, 2, 3, 5, 7, 8, 11]"

definition SCALES_lydian :: "int list" where
  "SCALES_lydian = [0, 2, 4, 6, 7, 9, 11]"

record ChordPool =
  pool_A :: "int list list"
  pool_B :: "int list list"

definition CHORD_POOLS_techno :: ChordPool where
  "CHORD_POOLS_techno =
    \<lparr>pool_A = [[0, 0, 0, 0], [0, -2, 0, -2], [0, 2, 0, -2]],
     pool_B = [[-4, -4, 0, 0], [0, 3, 0, 5], [-2, 0, -2, 0]]\<rparr>"

definition CHORD_POOLS :: "(MusicStyle \<times> ChordPool) list" where
  "CHORD_POOLS =
    [(techno, CHORD_POOLS_techno),
     (house, \<lparr>pool_A = [[0, 3, 5, 3], [0, 2, 4, 2], [0, -2, 3, 5]],
              pool_B = [[5, 3, 0, -2], [4, 6, 0, 2], [3, 0, 3, 5]]\<rparr>),
     (ambient, \<lparr>pool_A = [[0, 4, 2, 5], [0, -3, 2, 0], [0, 2, 4, 6]],
                pool_B = [[5, 2, 6, 4], [4, 0, 5, 2]]\<rparr>),
     (symphony, \<lparr>pool_A = [[0, 5, 2, 6], [0, 4, 5, 1]],
                 pool_B = [[2, 6, 4, 5], [3, 0, 4, 1], [6, 4, 2, 5]]\<rparr>),
     (easy_listening, \<lparr>pool_A = [[0, 5, 3, 4], [0, 3, 0, 4]],
                       pool_B = [[3, 4, 0, 5], [5, 4, 3, 0]]\<rparr>),
     (industrial, \<lparr>pool_A = [[0, 6, 0, 6], [0, 1, 0, 1]],
                   pool_B = [[6, 1, 6, 0], [0, 0, 1, 1]]\<rparr>),
     (glitch, \<lparr>pool_A = [[0, 0, 0, 0]],
               pool_B = [[0, -2, 2, -5]]\<rparr>)]"

subsection \<open>JavaScript primitives\<close>

text \<open>An array read \<open>xs[i]\<close>: outside the array the result is \<open>undefined\<close>.\<close>

definition array_get :: "'a list \<Rightarrow> int \<Rightarrow> 'a option" where
  "array_get xs i = (if 0 \<le> i \<and> i < int (length xs) then Some (xs ! nat i) else None)"

text \<open>
  The remainder operator \<open>%\<close> on integers with a non-zero divisor: the result takes the sign
  of the dividend.
\<close>

definition js_rem :: "int \<Rightarrow> int \<Rightarrow> int" where
  "js_rem a b = sgn a * (\<bar>a\<bar> mod \<bar>b\<bar>)"

text \<open>
  The random source is the sequence of results that the coming calls of \<open>Math.random()\<close>
  return; a call takes the first and leaves the rest.
\<close>

type_synonym rng = "nat \<Rightarrow> real"

definition Math_random :: "rng \<Rightarrow> real \<times> rng" where
  "Math_random r = (r 0, \<lambda>n. r (Suc n))"

subsection \<open>The signal graph and the calls to the instrument voices\<close>

datatype ContextState = suspended | running

record AudioContext =
  state :: ContextState
  currentTime :: real

text \<open>
  An \<open>AudioParam\<close> is its initial value and the \<open>setTargetAtTime(target, startTime,
  timeConstant)\<close> calls it has received, oldest first.
\<close>

record AudioParam =
  pvalue :: real
  targets :: "(real \<times> real \<times> real) list"

definition setTargetAtTime :: "real \<Rightarrow> real \<Rightarrow> real \<Rightarrow> AudioParam \<Rightarrow> AudioParam" where
  "setTargetAtTime v t0 tc p = p\<lparr>targets := targets p @ [(v, t0, tc)]\<rparr>"

record BiquadFilter =
  frequency :: AudioParam
  Q :: AudioParam

datatype SynthKind = lead | pad | pluck | strings | woodwind | epiano

text \<open>
  What \<open>scheduleNote\<close> does is the sequence of calls it makes: the timer for the step
  callback and the instrument voices, each with the arguments passed.
\<close>

datatype Call =
    StepTimer nat real
  | PlayKick real real real
  | PlayTimpani real real
  | PlayNoiseSnare real real
  | PlayShaker real real
  | PlayHiHat real real real
  | PlayChord real bool int
  | PlayBass real "real option"
  | PlaySynth real "real option" real SynthKind

record AudioEngine =
  ctx :: "AudioContext option"
  isPlaying :: bool
  nextNoteTime :: real
  current16thNote :: nat
  globalBar :: nat
  timerID :: "nat option"
  masterGain :: "AudioParam option"
  filterNode :: "BiquadFilter option"
  delayNode :: "real option"
  delayFeedback :: "AudioParam option"
  reverbNode :: "real option"
  reverbGain :: "AudioParam option"
  distortionNode :: "real option"
  compressorNode :: "unit option"
  params :: SonicParameters
  currentGestures :: HandGestures
  filterCutoff :: real
  resonance :: real
  scale :: "int list"
  form :: "nat list"
  sections :: "int list option list"
  activeSectionIdx :: "nat option"
  currentChordSequence :: "int list option"
  melodyPattern :: "int option list"
  bassPattern :: "int option list"
  flowLFO :: real
  intensity :: real
  calls :: "Call list"
  pendingTimers :: "nat list"
  timerSeq :: nat

text \<open>
  The fields \<open>lookahead\<close> (milliseconds) and \<open>scheduleAheadTime\<close> (seconds) are never
  assigned after their initialisers, so they are constants here. The step callback of the
  user interface is not part of the state.
\<close>

definition lookahead :: real where
  "lookahead = 25"

definition scheduleAheadTime :: real where
  "scheduleAheadTime = 0.1"

section \<open>Composer\<close>

definition selectScale :: "MusicStyle \<Rightarrow> int list" where
  "selectScale st =
    (if st = house then SCALES_dorian
     else if st = techno then SCALES_phrygian
     else if st = easy_listening then SCALES_major
     else if st = symphony then SCALES_harmonic_minor
     else if st = ambient then SCALES_lydian
     else SCALES_minor)"

definition selectForm :: "real \<Rightarrow> nat list" where
  "selectForm c =
    (let isComplex = c > 0.6;
         isRepetitive = c < 0.3
     in if isRepetitive then [0, 0, 0, 0]
        else if isComplex then [0, 0, 1, 0, 0, 1, 1, 0]
        else [0, 0, 1, 0])"

definition pickProg :: "int list list \<Rightarrow> rng \<Rightarrow> int list option \<times> rng" where
  "pickProg arr r =
    (let (u, r1) = Math_random r
     in (array_get arr \<lfloor>u * real (length arr)\<rfloor>, r1))"

definition melodyStep :: "SonicParameters \<Rightarrow> nat \<Rightarrow> int option list \<times> rng \<Rightarrow> int option list \<times> rng" where
  "melodyStep p i acc =
    (let (pat, r) = acc;
         density = complexity p;
         isStrongBeat = (i mod 4 = 0);
         chance = density * 0.4 + (if isStrongBeat then 0.3 else 0);
         (u, r1) = Math_random r
     in if u < chance
        then (let range = (if style p = techno then 5 else 12);
                  (v, r2) = Math_random r1;
                  degree = js_rem \<lfloor>v * range\<rfloor> 7
              in (pat[i := Some degree], r2))
        else (pat, r1))"

definition bassStep :: "SonicParameters \<Rightarrow> nat \<Rightarrow> int option list \<times> rng \<Rightarrow> int option list \<times> rng" where
  "bassStep p i acc =
    (let (pat, r) = acc
     in if style p = techno \<and> i mod 2 \<noteq> 0 then (pat[i := Some 0], r)
        else if style p = house \<and> (i = 0 \<or> i = 10 \<or> i = 14) then (pat[i := Some 0], r)
        else (let (u, r1) = Math_random r
              in if u < 0.25 then (pat[i := Some 0], r1) else (pat, r1)))"

definition generateComposition :: "rng \<Rightarrow> AudioEngine \<Rightarrow> AudioEngine \<times> rng" where
  "generateComposition r0 s =
    (let p = params s;
         pool = (case map_of CHORD_POOLS (style p) of
                   Some pl \<Rightarrow> pl
                 | None \<Rightarrow> CHORD_POOLS_techno);
         (progA, r1) = pickProg (pool_A pool) r0;
         (progB, r2) = pickProg (pool_B pool) r1;
         secs = [progA, progB];
         (mel, r3) = fold (melodyStep p) [0..<16] (replicate 16 None, r2);
         (bas, r4) = fold (bassStep p) [0..<16] (replicate 16 None, r3);
         bas' = (if style p \<noteq> ambient then bas[0 := Some 0] else bas)
     in (s\<lparr>scale := selectScale (style p),
           form := selectForm (complexity p),
           sections := secs,
           currentChordSequence := (case array_get secs 0 of Some q \<Rightarrow> q | None \<Rightarrow> None),
           melodyPattern := mel,
           bassPattern := bas'\<rparr>, r4))"

definition defaultGestures :: HandGestures where
  "defaultGestures =
    \<lparr>gx = 0.5, gy = 0.5, isPinching = False, isFist = False, isPalmOpen = True,
     isVisible = False\<rparr>"

text \<open>The field initialisers of the class, before the constructor body runs.\<close>

definition fieldDefaults :: "SonicParameters \<Rightarrow> AudioEngine" where
  "fieldDefaults p =
    \<lparr>ctx = None, isPlaying = False, nextNoteTime = 0, current16thNote = 0, globalBar = 0,
     timerID = None, masterGain = None, filterNode = None, delayNode = None,
     delayFeedback = None, reverbNode = None, reverbGain = None, distortionNode = None,
     compressorNode = None, params = p, currentGestures = defaultGestures,
     filterCutoff = 1000, resonance = 0,
     scale = SCALES_minor, form = [], sections = [], activeSectionIdx = Some 0,
     currentChordSequence = Some [0, 0, 0, 0], melodyPattern = [], bassPattern = [],
     flowLFO = 0, intensity = 0, calls = [], pendingTimers = [], timerSeq = 0\<rparr>"

definition newAudioEngine :: "SonicParameters \<Rightarrow> rng \<Rightarrow> AudioEngine \<times> rng" where
  "newAudioEngine initialParams r = generateComposition r (fieldDefaults initialParams)"

section \<open>Signal graph construction and gesture modulation\<close>

datatype js_error = TypeError

text \<open>
  \<open>init\<close> receives the context that \<open>new AudioContext()\<close> returns. A node is represented by
  the settings the claims can observe: a gain node by its \<open>gain\<close> parameter, the distortion
  node by the amount of its curve, the delay node by its delay time, the reverb node by the
  length of its impulse response. Exceptions raised inside the Web Audio API itself are
  outside the model.
\<close>

definition init :: "AudioContext \<Rightarrow> AudioEngine \<Rightarrow> AudioEngine" where
  "init c0 s =
    (if ctx s \<noteq> None then s
     else
       (let p = params s;
            distAmount0 = darkness p * 400;
            distAmount1 = (if style p = industrial then distAmount0 * 2 else distAmount0);
            distAmount = (if style p \<in> {ambient, easy_listening, symphony} then 0 else distAmount1);
            beatTime = 60 / bpm p;
            delayTime = (if style p = symphony then beatTime / 2 else beatTime * 0.75);
            reverbSize0 = (if style p = symphony then 5 else 3);
            reverbSize1 = (if style p = ambient then 8 else reverbSize0);
            reverbSize = (if style p = techno then 2 else reverbSize1)
        in s\<lparr>ctx := Some c0,
             masterGain := Some \<lparr>pvalue = 0.8, targets = []\<rparr>,
             compressorNode := Some (),
             filterNode := Some \<lparr>frequency = \<lparr>pvalue = filterCutoff s, targets = []\<rparr>,
                                  Q = \<lparr>pvalue = resonance s, targets = []\<rparr>\<rparr>,
             distortionNode := Some distAmount,
             delayNode := Some delayTime,
             delayFeedback := Some \<lparr>pvalue = 0.3, targets = []\<rparr>,
             reverbNode := Some reverbSize,
             reverbGain := Some \<lparr>pvalue = 0.4, targets = []\<rparr>\<rparr>))"

text \<open>
  The optional call \<open>node?.gain.setTargetAtTime(...)\<close> is skipped on a missing node; the
  asserted one \<open>node!.gain.setTargetAtTime(...)\<close> raises a \<open>TypeError\<close> there.
\<close>

definition optTarget :: "real \<Rightarrow> real \<Rightarrow> real \<Rightarrow> AudioParam option \<Rightarrow> AudioParam option" where
  "optTarget v t0 tc n = map_option (setTargetAtTime v t0 tc) n"

definition gestureModes :: "bool \<Rightarrow> real \<Rightarrow> AudioEngine \<Rightarrow> js_error + AudioEngine" where
  "gestureModes fist now s =
    (case masterGain s of
       None \<Rightarrow> Inl TypeError
     | Some mg \<Rightarrow>
         if fist
         then Inr (s\<lparr>masterGain := Some (setTargetAtTime 0.5 now 0.5 mg),
                     reverbGain := optTarget 0.8 now 0.5 (reverbGain s),
                     delayFeedback := optTarget 0.8 now 0.5 (delayFeedback s)\<rparr>)
         else Inr (s\<lparr>masterGain := Some (setTargetAtTime 0.8 now 0.5 mg),
                     reverbGain := optTarget 0.4 now 0.5 (reverbGain s),
                     delayFeedback := optTarget 0.3 now 0.5 (delayFeedback s)\<rparr>))"

definition updateControlParams :: "HandGestures \<Rightarrow> AudioEngine \<Rightarrow> js_error + AudioEngine" where
  "updateControlParams gestures s =
    (case (ctx s, filterNode s, distortionNode s) of
       (Some c, Some fl, Some _) \<Rightarrow>
         (let s1 = s\<lparr>currentGestures := gestures\<rparr>
          in if \<not> isVisible gestures then Inr s1
             else
               (let now = currentTime c;
                    minFreq = 100;
                    maxFreq = 12000;
                    lfoMod = sin (now * 0.5) * 200 * space (params s);
                    freq = max minFreq (minFreq * (maxFreq / minFreq) powr gx gestures + lfoMod);
                    fl1 = fl\<lparr>frequency := setTargetAtTime freq now 0.1 (frequency fl)\<rparr>;
                    fl2 = fl1\<lparr>Q := setTargetAtTime (gy gestures * 15) now 0.1 (Q fl1)\<rparr>;
                    s2 = s1\<lparr>filterNode := Some fl2\<rparr>
                in case gestureModes (isFist gestures) now s2 of
                     Inl e \<Rightarrow> Inl e
                   | Inr s3 \<Rightarrow>
                       if isPinching gestures
                       then Inr (s3\<lparr>filterNode :=
                              Some (fl2\<lparr>frequency :=
                                setTargetAtTime (freq * 1.5) now 0.05 (frequency fl2)\<rparr>)\<rparr>)
                       else Inr s3))
     | _ \<Rightarrow> Inr s)"

section \<open>Music theory helpers\<close>

definition normDegree :: "int \<Rightarrow> int \<Rightarrow> int" where
  "normDegree scaleDegree scaleLen = js_rem (js_rem scaleDegree scaleLen + scaleLen) scaleLen"

definition octaveShift :: "int \<Rightarrow> int \<Rightarrow> int" where
  "octaveShift scaleDegree scaleLen = \<lfloor>real_of_int scaleDegree / real_of_int scaleLen\<rfloor>"

text \<open>
  \<open>getFreq\<close> of an undefined degree, or on an empty scale, is \<open>NaN\<close>. A base frequency of
  zero has base-2 logarithm minus infinity and the result is zero; a negative one gives
  \<open>NaN\<close>.
\<close>

definition getFreq :: "AudioEngine \<Rightarrow> int option \<Rightarrow> int \<Rightarrow> real option" where
  "getFreq s scaleDegree octaveOffset =
    (case scaleDegree of
       None \<Rightarrow> None
     | Some d \<Rightarrow>
         (let scaleLen = int (length (scale s))
          in if scaleLen = 0 then None
             else
               (case array_get (scale s) (normDegree d scaleLen) of
                  None \<Rightarrow> None
                | Some sc \<Rightarrow>
                    (let semitones = sc + octaveShift d scaleLen * 12 + octaveOffset * 12;
                         base = baseNoteFrequency (params s);
                         baseMidi = 69 + 12 * log 2 (base / 440);
                         targetMidi = baseMidi + real_of_int semitones
                     in if base > 0 then Some (440 * 2 powr ((targetMidi - 69) / 12))
                        else if base = 0 then Some 0
                        else None))))"

section \<open>Transport\<close>

text \<open>
  \<open>nextNote\<close> divides by the tempo; the parameters are trusted to have \<open>bpm > 0\<close>. An empty
  form would make the section index \<open>NaN\<close> and the looked-up section undefined.
\<close>

definition nextNote :: "AudioEngine \<Rightarrow> AudioEngine" where
  "nextNote s =
    (let secondsPerBeat = 60 / bpm (params s);
         s1 = s\<lparr>nextNoteTime := nextNoteTime s + 0.25 * secondsPerBeat,
                current16thNote := current16thNote s + 1\<rparr>
     in if current16thNote s1 = 16
        then
          (let bar = globalBar s1 + 1;
               formLength = int (length (form s1));
               sectionIndex = (if formLength = 0 then None
                               else Some (js_rem \<lfloor>real bar / 4\<rfloor> formLength));
               active = (case sectionIndex of
                           None \<Rightarrow> None
                         | Some k \<Rightarrow> array_get (form s1) k);
               chords = (case active of
                           None \<Rightarrow> None
                         | Some a \<Rightarrow>
                             (case array_get (sections s1) (int a) of
                                None \<Rightarrow> None
                              | Some q \<Rightarrow> q))
           in s1\<lparr>current16thNote := 0,
                 globalBar := bar,
                 activeSectionIdx := active,
                 currentChordSequence := chords,
                 intensity := min 1 (real bar / 64)\<rparr>)
        else s1)"

section \<open>Note realization\<close>

text \<open>
  Reading an element of \<open>currentChordSequence\<close> raises a \<open>TypeError\<close> when the sequence itself
  is undefined; an index outside the sequence reads \<open>undefined\<close>.
\<close>

definition chordRootAt :: "AudioEngine \<Rightarrow> js_error + int option" where
  "chordRootAt s =
    (case currentChordSequence s of
       None \<Rightarrow> Inl TypeError
     | Some q \<Rightarrow> Inr (array_get q (int (globalBar s mod 4))))"

text \<open>Kick, snare or clap, and hi-hat: the rhythm section of \<open>scheduleNote\<close>.\<close>

definition kickCalls :: "nat \<Rightarrow> real \<Rightarrow> bool \<Rightarrow> bool \<Rightarrow> AudioEngine \<Rightarrow> Call list" where
  "kickCalls beat t fist breakdown s =
    (let isKickStep = (beat mod 4 = 0)
     in if isKickStep \<and> \<not> fist \<and> \<not> breakdown
        then (if style (params s) = easy_listening \<or> style (params s) = ambient
              then [PlayKick t 0.6 0.3]
              else if style (params s) = symphony
              then (if beat = 0 then [PlayTimpani t 0.8] else [])
              else [PlayKick t 1.0 0.5])
        else [])"

definition snareCalls :: "nat \<Rightarrow> real \<Rightarrow> bool \<Rightarrow> bool \<Rightarrow> AudioEngine \<Rightarrow> Call list" where
  "snareCalls beat t fist breakdown s =
    (if (beat = 4 \<or> beat = 12) \<and> \<not> fist \<and> \<not> breakdown
     then (if style (params s) = techno \<or> style (params s) = industrial
           then [PlayNoiseSnare t 0.5]
           else if style (params s) = easy_listening
           then [PlayShaker t 0.2]
           else [])
     else [])"

definition hatCalls :: "nat \<Rightarrow> real \<Rightarrow> bool \<Rightarrow> bool \<Rightarrow> AudioEngine \<Rightarrow> Call list" where
  "hatCalls beat t fist pinching s =
    (let is16th = (beat mod 2 \<noteq> 0);
         shouldPlayHat = (\<not> is16th \<or> intensity s > 0.5 \<or> pinching)
     in if shouldPlayHat \<and> \<not> fist
        then (if style (params s) \<noteq> symphony
              then (let vol = (if pinching then 0.6 else if is16th then 0.15 else 0.3)
                    in [PlayHiHat t vol (if pinching then 0.02 else 0.05)])
              else [])
        else [])"

text \<open>
  \<open>playChord\<close> is recorded as one call; its first statement reads the chord root of the bar
  from \<open>currentChordSequence\<close>.
\<close>

definition playChord :: "real \<Rightarrow> bool \<Rightarrow> int \<Rightarrow> AudioEngine \<Rightarrow> js_error + Call list" where
  "playChord t isBuilding octShift s =
    (case chordRootAt s of
       Inl e \<Rightarrow> Inl e
     | Inr _ \<Rightarrow> Inr [PlayChord t isBuilding octShift])"

definition chordCalls :: "nat \<Rightarrow> real \<Rightarrow> bool \<Rightarrow> AudioEngine \<Rightarrow> js_error + Call list" where
  "chordCalls beat t fist s =
    (if beat = 0
     then playChord t fist (if activeSectionIdx s = Some 1 then 1 else 0) s
     else Inr [])"

text \<open>
  The bass line. The slot read from \<open>bassPattern\<close> is \<open>Some None\<close> when it holds \<open>null\<close>,
  and \<open>None\<close> when the read is outside the pattern; only \<open>null\<close> is skipped.
\<close>

definition bassCalls :: "nat \<Rightarrow> real \<Rightarrow> bool \<Rightarrow> bool \<Rightarrow> AudioEngine \<Rightarrow> js_error + Call list" where
  "bassCalls beat t fist breakdown s =
    (if \<not> fist \<and> \<not> breakdown
     then (let bassNote = array_get (bassPattern s) (int beat)
           in if bassNote \<noteq> Some None
              then (case chordRootAt s of
                      Inl e \<Rightarrow> Inl e
                    | Inr currentChordRoot \<Rightarrow>
                        (let bassNote' = (if bassNote = Some (Some 0) then currentChordRoot
                                          else (case bassNote of None \<Rightarrow> None | Some d \<Rightarrow> d));
                             freq = getFreq s bassNote' 0
                         in Inr [PlayBass t freq]))
              else Inr [])
     else Inr [])"

definition leadCalls :: "nat \<Rightarrow> real \<Rightarrow> bool \<Rightarrow> bool \<Rightarrow> AudioEngine \<Rightarrow> js_error + Call list" where
  "leadCalls beat t fist pinching s =
    (let shouldArp = ((style (params s) = techno \<or> style (params s) = symphony)
                      \<and> intensity s > 0.3)
     in if shouldArp \<and> beat mod 2 = 0
        then (case chordRootAt s of
                Inl e \<Rightarrow> Inl e
              | Inr chordRoot \<Rightarrow>
                  (let arpIntervals = [0, 2, 4, 6];
                       arpIdx = (beat div 2 + globalBar s) mod 4;
                       degree = (case (chordRoot, array_get arpIntervals (int arpIdx)) of
                                   (Some r, Some iv) \<Rightarrow> Some (r + iv)
                                 | _ \<Rightarrow> None);
                       freq = getFreq s degree 2;
                       kind = (if style (params s) = symphony then strings else pluck)
                   in if \<not> fist then Inr [PlaySynth t freq 0.1 kind] else Inr []))
        else (let melodyNote = array_get (melodyPattern s) (int beat)
              in if melodyNote \<noteq> Some None
                 then (let octave = (if pinching then 2 else 1);
                           freq = getFreq s (case melodyNote of None \<Rightarrow> None | Some d \<Rightarrow> d) octave;
                           kind0 = (if style (params s) = symphony then woodwind else lead);
                           kind1 = (if style (params s) = easy_listening then pluck else kind0);
                           kind = (if style (params s) = ambient then pluck else kind1)
                       in Inr [PlaySynth t freq 0.2 kind])
                 else Inr []))"

text \<open>Section B is a breakdown, with drums and bass left out, when the complexity is high.\<close>

definition isBreakdown :: "AudioEngine \<Rightarrow> bool" where
  "isBreakdown s = (activeSectionIdx s = Some 1 \<and> complexity (params s) > 0.5)"

definition scheduleNote :: "nat \<Rightarrow> real \<Rightarrow> AudioEngine \<Rightarrow> js_error + AudioEngine" where
  "scheduleNote beat t s =
    (case ctx s of
       None \<Rightarrow> Inr s
     | Some c \<Rightarrow>
         (let timeUntilNote = (t - currentTime c) * 1000;
              ui = (if timeUntilNote \<ge> 0 then [StepTimer beat timeUntilNote] else []);
              fist = isFist (currentGestures s);
              pinching = isPinching (currentGestures s);
              breakdown = isBreakdown s;
              rhythm = kickCalls beat t fist breakdown s @ snareCalls beat t fist breakdown s
                       @ hatCalls beat t fist pinching s
          in case chordCalls beat t fist s of
               Inl e \<Rightarrow> Inl e
             | Inr ch \<Rightarrow>
                 (case bassCalls beat t fist breakdown s of
                    Inl e \<Rightarrow> Inl e
                  | Inr bs \<Rightarrow>
                      (case leadCalls beat t fist pinching s of
                         Inl e \<Rightarrow> Inl e
                       | Inr ld \<Rightarrow> Inr (s\<lparr>calls := calls s @ ui @ rhythm @ ch @ bs @ ld\<rparr>)))))"

section \<open>Scheduler, start and stop\<close>

text \<open>
  The look-ahead loop of \<open>scheduler\<close> need not end (a negative tempo moves the next note
  time backwards), so it is a partial function: \<open>None\<close> is a loop that never returns.
\<close>

partial_function (option) schedulerLoop :: "real \<Rightarrow> AudioEngine \<Rightarrow> (js_error + AudioEngine) option" where
  "schedulerLoop now s =
    (if nextNoteTime s < now + scheduleAheadTime
     then (case scheduleNote (current16thNote s) (nextNoteTime s) s of
             Inl e \<Rightarrow> Some (Inl e)
           | Inr s1 \<Rightarrow> schedulerLoop now (nextNote s1))
     else Some (Inr s))"

declare schedulerLoop.simps [code]

text \<open>Arming the timer: \<open>setTimeout\<close> hands out the next timer number and keeps it pending.\<close>

definition armTimer :: "AudioEngine \<Rightarrow> AudioEngine" where
  "armTimer s = s\<lparr>timerID := Some (timerSeq s),
                  pendingTimers := pendingTimers s @ [timerSeq s],
                  timerSeq := timerSeq s + 1\<rparr>"

definition scheduler :: "AudioEngine \<Rightarrow> (js_error + AudioEngine) option" where
  "scheduler s =
    (case ctx s of
       None \<Rightarrow> Some (Inr s)
     | Some c \<Rightarrow>
         if \<not> isPlaying s then Some (Inr s)
         else (case schedulerLoop (currentTime c) s of
                 None \<Rightarrow> None
               | Some (Inl e) \<Rightarrow> Some (Inl e)
               | Some (Inr s1) \<Rightarrow> Some (Inr (armTimer s1))))"

text \<open>
  \<open>start\<close> receives the context that \<open>init\<close> would create. \<open>resume()\<close> is asynchronous in the
  browser; the model records its effect on the context state at once.
\<close>

definition start :: "AudioContext \<Rightarrow> AudioEngine \<Rightarrow> (js_error + AudioEngine) option" where
  "start c0 s =
    (let s1 = (if ctx s = None then init c0 s else s);
         s2 = (case ctx s1 of
                 Some c \<Rightarrow> if state c = suspended then s1\<lparr>ctx := Some (c\<lparr>state := running\<rparr>)\<rparr> else s1
               | None \<Rightarrow> s1);
         s3 = s2\<lparr>isPlaying := True, current16thNote := 0, globalBar := 0\<rparr>
     in case ctx s3 of
          None \<Rightarrow> Some (Inl TypeError)
        | Some c \<Rightarrow> scheduler (s3\<lparr>nextNoteTime := currentTime c + 0.1\<rparr>))"

definition stop :: "AudioEngine \<Rightarrow> AudioEngine" where
  "stop s =
    s\<lparr>isPlaying := False,
      pendingTimers := (case timerID s of
                          None \<Rightarrow> pendingTimers s
                        | Some k \<Rightarrow> removeAll k (pendingTimers s))\<rparr>"

section \<open>Predicates and a concrete engine\<close>

text \<open>A bass slot is either empty or holds the degree zero.\<close>

definition rootOrEmpty :: "int option list \<Rightarrow> bool" where
  "rootOrEmpty pat = list_all (\<lambda>slot. slot = None \<or> slot = Some 0) pat"

text \<open>
  The composition is usable by the transport: the form is not empty, it only names sections
  that exist, and every section and the current chord sequence is a progression.
\<close>

definition wellFormed :: "AudioEngine \<Rightarrow> bool" where
  "wellFormed s =
    (form s \<noteq> [] \<and> list_all (\<lambda>i. i < length (sections s)) (form s)
     \<and> list_all (\<lambda>q. q \<noteq> None) (sections s) \<and> currentChordSequence s \<noteq> None)"

text \<open>The intensity is the one that belongs to the bar counter.\<close>

definition intensityInv :: "AudioEngine \<Rightarrow> bool" where
  "intensityInv s = (intensity s = min 1 (real (globalBar s) / 64))"

fun isPlayBass :: "Call \<Rightarrow> bool" where
  "isPlayBass (PlayBass _ _) = True"
| "isPlayBass _ = False"

text \<open>The calls that a step from \<open>s\<close> to \<open>s'\<close> has added.\<close>

definition newCalls :: "AudioEngine \<Rightarrow> AudioEngine \<Rightarrow> Call list" where
  "newCalls s s' = drop (length (calls s)) (calls s')"

text \<open>The duration of a sixteenth note, as \<open>nextNote\<close> computes it.\<close>

definition sixteenth :: "AudioEngine \<Rightarrow> real" where
  "sixteenth s = 0.25 * (60 / bpm (params s))"

text \<open>
  The fallback parameter set that \<open>analyzeImageForSound\<close> returns when the analysis fails,
  and a random source that always returns the same number.
\<close>

definition fallbackParams :: SonicParameters where
  "fallbackParams =
    \<lparr>bpm = 128, complexity = 0.5, darkness = 0.5, space = 0.5, synthType = sawtooth,
     baseNoteFrequency = 55, style = techno\<rparr>"

definition constRng :: "real \<Rightarrow> rng" where
  "constRng v = (\<lambda>n. v)"

definition engine0 :: AudioEngine where
  "engine0 = fst (newAudioEngine fallbackParams (constRng (1 / 2)))"

definition ctx0 :: AudioContext where
  "ctx0 = \<lparr>state = suspended, currentTime = 0\<rparr>"

text \<open>The audio clock is advanced by the browser, between the calls of the engine.\<close>

definition setClock :: "real \<Rightarrow> AudioEngine \<Rightarrow> AudioEngine" where
  "setClock t s = s\<lparr>ctx := map_option (\<lambda>c. c\<lparr>currentTime := t\<rparr>) (ctx s)\<rparr>"

definition resultOr :: "AudioEngine \<Rightarrow> (js_error + AudioEngine) option \<Rightarrow> AudioEngine" where
  "resultOr d r = (case r of Some (Inr e) \<Rightarrow> e | _ \<Rightarrow> d)"

text \<open>
  The engine built from the fallback parameters, started at clock zero, and then the state
  after the timer has run \<open>scheduler\<close> at clock 1.9 seconds: seventeen notes are dispatched,
  so the engine is in step 1 of bar 1.
\<close>

definition started0 :: AudioEngine where
  "started0 = resultOr engine0 (start ctx0 engine0)"

definition afterOneBar :: AudioEngine where
  "afterOneBar = resultOr started0 (scheduler (setClock (19 / 10) started0))"

text \<open>The same engine and the same started engine, written out field by field.\<close>

definition engine0_explicit :: AudioEngine where
  "engine0_explicit =
    \<lparr>ctx = None, isPlaying = False, nextNoteTime = 0, current16thNote = 0, globalBar = 0,
     timerID = None, masterGain = None, filterNode = None, delayNode = None,
     delayFeedback = None, reverbNode = None, reverbGain = None, distortionNode = None,
     compressorNode = None, params = fallbackParams, currentGestures = defaultGestures,
     filterCutoff = 1000, resonance = 0, scale = [0, 1, 3, 5, 7, 8, 10], form = [0, 0, 1, 0],
     sections = [Some [0, - 2, 0, - 2], Some [0, 3, 0, 5]], activeSectionIdx = Some 0,
     currentChordSequence = Some [0, - 2, 0, - 2],
     melodyPattern = replicate 16 None,
     bassPattern = [Some 0, Some 0, None, Some 0, None, Some 0, None, Some 0, None, Some 0,
                    None, Some 0, None, Some 0, None, Some 0],
     flowLFO = 0, intensity = 0, calls = [], pendingTimers = [], timerSeq = 0\<rparr>"

definition started0_explicit :: AudioEngine where
  "started0_explicit = engine0_explicit
    \<lparr>ctx := Some \<lparr>state = running, currentTime = 0\<rparr>,
     isPlaying := True, nextNoteTime := 1 / 10, timerID := Some 0,
     masterGain := Some \<lparr>pvalue = 0.8, targets = []\<rparr>,
     filterNode := Some \<lparr>frequency = \<lparr>pvalue = 1000, targets = []\<rparr>,
                          Q = \<lparr>pvalue = 0, targets = []\<rparr>\<rparr>,
     delayNode := Some (45 / 128), delayFeedback := Some \<lparr>pvalue = 0.3, targets = []\<rparr>,
     reverbNode := Some 2, reverbGain := Some \<lparr>pvalue = 0.4, targets = []\<rparr>,
     distortionNode := Some 200, compressorNode := Some (), pendingTimers := [0], timerSeq := 1\<rparr>"

text \<open>
  Starting once more while the engine is running, and starting again after a stop.
\<close>

definition restartedRunning :: AudioEngine where
  "restartedRunning = resultOr afterOneBar (start ctx0 afterOneBar)"

definition restarted :: AudioEngine where
  "restarted = resultOr afterOneBar (start ctx0 (stop afterOneBar))"

text \<open>A gesture update of a hand that is not visible, with the fist flag set.\<close>

definition unseenFist :: HandGestures where
  "unseenFist = defaultGestures\<lparr>isFist := True, isPalmOpen := False\<rparr>"

text \<open>An engine of high complexity, whose form has eight entries.\<close>

definition complexParams :: SonicParameters where
  "complexParams = fallbackParams\<lparr>complexity := 0.8\<rparr>"

definition engine8 :: AudioEngine where
  "engine8 = fst (newAudioEngine complexParams (constRng (1 / 2)))"

text \<open>The started engine, placed in step 1 of bar 1.\<close>

definition barOne :: AudioEngine where
  "barOne = started0\<lparr>current16thNote := 1, globalBar := 1\<rparr>"

section \<open>Properties of the music theory helpers\<close>

lemma floor_quarter: "\<lfloor>real n / 4\<rfloor> = int (n div 4)"
  using floor_divide_of_nat_eq[of n 4, where ?'a = real] by simp

lemma js_rem_nonneg: "0 \<le> a \<Longrightarrow> 0 < b \<Longrightarrow> js_rem a b = a mod b"
  by (cases "a = 0") (simp_all add: js_rem_def)

lemma js_rem_cong: "0 < b \<Longrightarrow> js_rem a b mod b = a mod b"
proof (cases "0 \<le> a")
  case True
  assume "0 < b"
  with True show ?thesis by (simp add: js_rem_nonneg)
next
  case False
  assume b: "0 < b"
  from False have "js_rem a b = - ((- a) mod b)" using b by (simp add: js_rem_def)
  then show ?thesis by (simp add: mod_minus_eq)
qed

lemma js_rem_lower: "0 < b \<Longrightarrow> - b < js_rem a b"
proof -
  assume b: "0 < b"
  have "\<bar>a\<bar> mod \<bar>b\<bar> < b" using b by simp
  moreover have "0 \<le> \<bar>a\<bar> mod \<bar>b\<bar>" using b by simp
  ultimately show ?thesis
    by (cases "a < 0"; cases "a = 0") (simp_all add: js_rem_def)
qed

lemma normDegree_mod: "0 < n \<Longrightarrow> normDegree d n = d mod n"
proof -
  assume n: "0 < n"
  have "0 \<le> js_rem d n + n" using js_rem_lower[OF n, of d] by simp
  then have "normDegree d n = (js_rem d n + n) mod n"
    using n by (simp add: normDegree_def js_rem_nonneg)
  also have "\<dots> = js_rem d n mod n" by simp
  also have "\<dots> = d mod n" using n by (rule js_rem_cong)
  finally show ?thesis .
qed

lemma octaveShift_div: "octaveShift d n = d div n"
  by (simp add: octaveShift_def floor_divide_of_int_eq)

lemma equal_tempered:
  assumes "0 < b"
  shows "440 * 2 powr ((12 * log 2 (b / 440) + x) / 12) = b * 2 powr (x / 12)"
proof -
  have e: "(12 * log 2 (b / 440) + x) / 12 = log 2 (b / 440) + x / 12"
    by (simp add: field_simps)
  have p: "2 powr (log 2 (b / 440)) = b / 440"
    using assms by simp
  have "440 * 2 powr ((12 * log 2 (b / 440) + x) / 12) = 440 * (2 powr (log 2 (b / 440)) * 2 powr (x / 12))"
    by (simp only: e powr_add)
  also have "\<dots> = 440 * ((b / 440) * 2 powr (x / 12))"
    by (simp only: p)
  also have "\<dots> = b * 2 powr (x / 12)"
    by simp
  finally show ?thesis .
qed

lemma getFreq_eq:
  assumes "scale s \<noteq> []" "0 < baseNoteFrequency (params s)"
  shows "getFreq s (Some d) off =
    Some (baseNoteFrequency (params s) *
      2 powr (real_of_int (scale s ! nat (d mod int (length (scale s)))
                + 12 * (d div int (length (scale s))) + 12 * off) / 12))"
proof -
  let ?n = "int (length (scale s))"
  have n: "0 < ?n" using assms(1) by simp
  have idx: "array_get (scale s) (normDegree d ?n) = Some (scale s ! nat (d mod ?n))"
    using n by (simp add: array_get_def normDegree_mod)
  show ?thesis
    using n assms(2)
    by (simp add: getFreq_def Let_def idx octaveShift_div equal_tempered mult.commute)
qed

section \<open>Properties of the transport\<close>

lemma nextNote_frame:
  "params (nextNote s) = params s" "form (nextNote s) = form s" "sections (nextNote s) = sections s"
  "ctx (nextNote s) = ctx s" "isPlaying (nextNote s) = isPlaying s" "bassPattern (nextNote s) = bassPattern s"
  "currentGestures (nextNote s) = currentGestures s" "calls (nextNote s) = calls s"
  by (simp_all add: nextNote_def Let_def)

lemma nextNote_time: "nextNoteTime (nextNote s) = nextNoteTime s + sixteenth s"
  by (simp add: nextNote_def Let_def sixteenth_def)

lemma nextNote_calls_update: "nextNote (s\<lparr>calls := cs\<rparr>) = (nextNote s)\<lparr>calls := cs\<rparr>"
  by (simp add: nextNote_def Let_def cong: option.case_cong)

lemma nextNote_wrap:
  assumes "current16thNote s = 15"
  shows "current16thNote (nextNote s) = 0" "globalBar (nextNote s) = globalBar s + 1"
    "intensity (nextNote s) = min 1 (real (globalBar s + 1) / 64)"
  using assms by (simp_all add: nextNote_def Let_def)

lemma nextNote_within:
  assumes "current16thNote s \<noteq> 15"
  shows "current16thNote (nextNote s) = current16thNote s + 1" "globalBar (nextNote s) = globalBar s"
    "intensity (nextNote s) = intensity s" "activeSectionIdx (nextNote s) = activeSectionIdx s"
    "currentChordSequence (nextNote s) = currentChordSequence s"
  using assms by (simp_all add: nextNote_def Let_def)

lemma nextNote_section:
  assumes "current16thNote s = 15" "form s \<noteq> []"
  shows "activeSectionIdx (nextNote s) =
    array_get (form s) (int (((globalBar s + 1) div 4) mod length (form s)))"
  using assms
  by (simp add: nextNote_def Let_def floor_quarter js_rem_nonneg zmod_int)

lemma nextNote_ticks:
  assumes "current16thNote s < 16"
  shows "16 * globalBar (nextNote s) + current16thNote (nextNote s) = 16 * globalBar s + current16thNote s + 1
     \<and> current16thNote (nextNote s) < 16"
proof (cases "current16thNote s = 15")
  case True
  then show ?thesis by (simp add: nextNote_wrap)
next
  case False
  with assms show ?thesis by (simp add: nextNote_within)
qed

lemma funpow_nextNote_ticks:
  assumes "current16thNote s < 16"
  shows "16 * globalBar ((nextNote ^^ k) s) + current16thNote ((nextNote ^^ k) s) = 16 * globalBar s + current16thNote s + k
     \<and> current16thNote ((nextNote ^^ k) s) < 16"
proof (induction k)
  case 0
  with assms show ?case by simp
next
  case (Suc k)
  then show ?case using nextNote_ticks[of "(nextNote ^^ k) s"] by simp
qed

lemma divmod16: "16 * g + c = (N::nat) \<Longrightarrow> c < 16 \<Longrightarrow> g = N div 16 \<and> c = N mod 16"
  by auto

lemma funpow_nextNote_counters:
  assumes "current16thNote s < 16"
  shows "globalBar ((nextNote ^^ k) s) = (16 * globalBar s + current16thNote s + k) div 16
    \<and> current16thNote ((nextNote ^^ k) s) = (16 * globalBar s + current16thNote s + k) mod 16"
  using funpow_nextNote_ticks[OF assms, of k] by (intro divmod16) simp_all

lemma nextNote_intensityInv: "intensityInv s \<Longrightarrow> intensityInv (nextNote s)"
  by (cases "current16thNote s = 15") (simp_all add: intensityInv_def nextNote_wrap nextNote_within)

lemma funpow_nextNote_intensityInv: "intensityInv s \<Longrightarrow> intensityInv ((nextNote ^^ k) s)"
  by (induction k) (simp_all add: nextNote_intensityInv)

lemma funpow_nextNote_frame:
  "params ((nextNote ^^ k) s) = params s" "ctx ((nextNote ^^ k) s) = ctx s" "isPlaying ((nextNote ^^ k) s) = isPlaying s"
  "bassPattern ((nextNote ^^ k) s) = bassPattern s" "form ((nextNote ^^ k) s) = form s" "sections ((nextNote ^^ k) s) = sections s"
  "currentGestures ((nextNote ^^ k) s) = currentGestures s" "calls ((nextNote ^^ k) s) = calls s"
  by (induction k) (simp_all add: nextNote_frame)

lemma funpow_sixteenth: "sixteenth ((nextNote ^^ k) s) = sixteenth s"
  by (simp add: sixteenth_def funpow_nextNote_frame)

lemma funpow_nextNote_time: "nextNoteTime ((nextNote ^^ k) s) = nextNoteTime s + real k * sixteenth s"
  by (induction k) (simp_all add: nextNote_time funpow_sixteenth algebra_simps)

lemma array_get_Some: "array_get xs (int i) = Some x \<longleftrightarrow> i < length xs \<and> xs ! i = x"
  by (auto simp add: array_get_def)

lemma nextNote_chords:
  assumes "current16thNote s = 15"
  shows "currentChordSequence (nextNote s) =
    (case activeSectionIdx (nextNote s) of
       None \<Rightarrow> None
     | Some a \<Rightarrow> (case array_get (sections s) (int a) of None \<Rightarrow> None | Some q \<Rightarrow> q))"
  using assms by (simp add: nextNote_def Let_def cong: option.case_cong)

lemma nextNote_wellFormed:
  assumes "wellFormed s"
  shows "wellFormed (nextNote s)"
proof (cases "current16thNote s = 15")
  case False
  with assms show ?thesis by (simp add: wellFormed_def nextNote_within nextNote_frame)
next
  case True
  let ?k = "((globalBar s + 1) div 4) mod length (form s)"
  from assms have ne: "form s \<noteq> []" by (simp add: wellFormed_def)
  then have k: "?k < length (form s)" by simp
  then have a: "activeSectionIdx (nextNote s) = Some (form s ! ?k)"
    using nextNote_section[OF True ne] by (simp add: array_get_def)
  from assms k have lt: "form s ! ?k < length (sections s)"
    by (simp add: wellFormed_def list_all_length)
  with assms have "sections s ! (form s ! ?k) \<noteq> None"
    by (simp add: wellFormed_def list_all_length)
  then obtain q where q: "sections s ! (form s ! ?k) = Some q" by auto
  have "currentChordSequence (nextNote s) = Some q"
    using lt q by (simp add: nextNote_chords[OF True] a array_get_def)
  with assms show ?thesis by (simp add: wellFormed_def nextNote_frame)
qed

lemma wellFormed_calls [simp]: "wellFormed (s\<lparr>calls := cs\<rparr>) = wellFormed s"
  by (simp add: wellFormed_def)

section \<open>Note realization and the scheduler loop\<close>

lemma chordCalls_ok:
  "currentChordSequence s = Some q \<Longrightarrow> \<exists>ch. chordCalls beat t fist s = Inr ch"
  by (simp add: chordCalls_def playChord_def chordRootAt_def)

lemma bassCalls_ok:
  "currentChordSequence s = Some q \<Longrightarrow> \<exists>bs. bassCalls beat t fist bd s = Inr bs"
  by (simp add: bassCalls_def chordRootAt_def Let_def)

lemma leadCalls_ok:
  "currentChordSequence s = Some q \<Longrightarrow> \<exists>ld. leadCalls beat t fist pinching s = Inr ld"
  by (simp add: leadCalls_def chordRootAt_def Let_def)

lemma scheduleNote_ok:
  assumes "currentChordSequence s = Some q"
  shows "\<exists>cs. scheduleNote beat t s = Inr (s\<lparr>calls := calls s @ cs\<rparr>)"
proof (cases "ctx s")
  case None
  then have "scheduleNote beat t s = Inr (s\<lparr>calls := calls s @ []\<rparr>)"
    by (simp add: scheduleNote_def)
  then show ?thesis by blast
next
  case (Some c)
  let ?fist = "isFist (currentGestures s)"
  let ?pinch = "isPinching (currentGestures s)"
  let ?bd = "isBreakdown s"
  obtain ch where ch: "chordCalls beat t ?fist s = Inr ch"
    using chordCalls_ok[OF assms] by blast
  obtain bs where bs: "bassCalls beat t ?fist ?bd s = Inr bs"
    using bassCalls_ok[OF assms] by blast
  obtain ld where ld: "leadCalls beat t ?fist ?pinch s = Inr ld"
    using leadCalls_ok[OF assms] by blast
  have "scheduleNote beat t s = Inr (s\<lparr>calls := calls s @
      ((if (t - currentTime c) * 1000 \<ge> 0 then [StepTimer beat ((t - currentTime c) * 1000)] else [])
       @ (kickCalls beat t ?fist ?bd s @ snareCalls beat t ?fist ?bd s @ hatCalls beat t ?fist ?pinch s)
       @ ch @ bs @ ld)\<rparr>)"
    by (simp add: scheduleNote_def Some Let_def ch bs ld)
  then show ?thesis by blast
qed

lemma scheduleNote_frame:
  "scheduleNote beat t s = Inr s' \<Longrightarrow> s' = s\<lparr>calls := calls s'\<rparr>"
  by (cases "ctx s") (auto simp add: scheduleNote_def Let_def split: sum.splits)

lemma funpow_nextNote_calls_update:
  "(nextNote ^^ n) (s\<lparr>calls := cs\<rparr>) = ((nextNote ^^ n) s)\<lparr>calls := cs\<rparr>"
  by (induction n) (simp_all add: nextNote_calls_update)

lemma schedulerLoop_idle:
  "\<not> nextNoteTime s < now + scheduleAheadTime \<Longrightarrow> schedulerLoop now s = Some (Inr s)"
  by (subst schedulerLoop.simps) simp

lemma schedulerLoop_step:
  assumes "nextNoteTime s < now + scheduleAheadTime"
    and "scheduleNote (current16thNote s) (nextNoteTime s) s = Inr s1"
  shows "schedulerLoop now s = schedulerLoop now (nextNote s1)"
  by (subst schedulerLoop.simps) (simp add: assms)

lemma schedulerLoop_run:
  assumes "wellFormed s"
    and "\<forall>k<n. nextNoteTime s + real k * sixteenth s < now + scheduleAheadTime"
    and "\<not> nextNoteTime s + real n * sixteenth s < now + scheduleAheadTime"
  shows "\<exists>cs. schedulerLoop now s = Some (Inr (((nextNote ^^ n) s)\<lparr>calls := calls s @ cs\<rparr>))"
  using assms
proof (induction n arbitrary: s)
  case 0
  then have "schedulerLoop now s = Some (Inr (((nextNote ^^ 0) s)\<lparr>calls := calls s @ []\<rparr>))"
    by (simp add: schedulerLoop_idle)
  then show ?case by blast
next
  case (Suc n)
  from Suc.prems(1) obtain q where q: "currentChordSequence s = Some q"
    by (auto simp add: wellFormed_def)
  obtain cs where cs: "scheduleNote (current16thNote s) (nextNoteTime s) s = Inr (s\<lparr>calls := calls s @ cs\<rparr>)"
    using scheduleNote_ok[OF q] by blast
  let ?s2 = "(nextNote s)\<lparr>calls := calls s @ cs\<rparr>"
  from Suc.prems(2) have now: "nextNoteTime s < now + scheduleAheadTime"
    by (auto dest: spec[of _ 0])
  have step: "schedulerLoop now s = schedulerLoop now ?s2"
    using schedulerLoop_step[OF now cs] by (simp add: nextNote_calls_update)
  have wf: "wellFormed ?s2"
    using Suc.prems(1) by (simp add: nextNote_wellFormed)
  have t2: "nextNoteTime ?s2 = nextNoteTime s + sixteenth s"
    by (simp add: nextNote_time)
  have d2: "sixteenth ?s2 = sixteenth s"
    by (simp add: sixteenth_def nextNote_frame)
  have a: "\<forall>k<n. nextNoteTime ?s2 + real k * sixteenth ?s2 < now + scheduleAheadTime"
  proof (intro allI impI)
    fix k assume "k < n"
    then have "nextNoteTime s + real (Suc k) * sixteenth s < now + scheduleAheadTime"
      using Suc.prems(2) by auto
    then show "nextNoteTime ?s2 + real k * sixteenth ?s2 < now + scheduleAheadTime"
      by (simp add: t2 d2 algebra_simps)
  qed
  have b: "\<not> nextNoteTime ?s2 + real n * sixteenth ?s2 < now + scheduleAheadTime"
    using Suc.prems(3) by (simp add: t2 d2 algebra_simps)
  obtain cs' where cs': "schedulerLoop now ?s2 = Some (Inr (((nextNote ^^ n) ?s2)\<lparr>calls := calls ?s2 @ cs'\<rparr>))"
    using Suc.IH[OF wf a b] by blast
  have "((nextNote ^^ n) ?s2)\<lparr>calls := calls ?s2 @ cs'\<rparr> = ((nextNote ^^ Suc n) s)\<lparr>calls := calls s @ (cs @ cs')\<rparr>"
    by (simp add: funpow_nextNote_calls_update funpow_swap1)
  with step cs' show ?case by metis
qed

lemma scheduler_run:
  assumes "ctx s = Some c" "isPlaying s" "wellFormed s"
    and "\<forall>k<n. nextNoteTime s + real k * sixteenth s < currentTime c + scheduleAheadTime"
    and "\<not> nextNoteTime s + real n * sixteenth s < currentTime c + scheduleAheadTime"
  shows "\<exists>cs. scheduler s = Some (Inr (armTimer (((nextNote ^^ n) s)\<lparr>calls := calls s @ cs\<rparr>)))"
proof -
  obtain cs where "schedulerLoop (currentTime c) s = Some (Inr (((nextNote ^^ n) s)\<lparr>calls := calls s @ cs\<rparr>))"
    using schedulerLoop_run[OF assms(3,4,5)] by blast
  then have "scheduler s = Some (Inr (armTimer (((nextNote ^^ n) s)\<lparr>calls := calls s @ cs\<rparr>)))"
    using assms(1,2) by (simp add: scheduler_def)
  then show ?thesis by blast
qed

section \<open>Properties of the composer\<close>

lemma melodyStep_length: "length (fst (melodyStep p i acc)) = length (fst acc)"
  by (simp add: melodyStep_def Let_def Math_random_def split: prod.splits)

lemma bassStep_length: "length (fst (bassStep p i acc)) = length (fst acc)"
  by (simp add: bassStep_def Let_def Math_random_def split: prod.splits)

lemma fold_melodyStep_length: "length (fst (fold (melodyStep p) xs acc)) = length (fst acc)"
  by (induction xs arbitrary: acc) (simp_all add: melodyStep_length)

lemma fold_bassStep_length: "length (fst (fold (bassStep p) xs acc)) = length (fst acc)"
  by (induction xs arbitrary: acc) (simp_all add: bassStep_length)

lemma rootOrEmpty_update: "rootOrEmpty pat \<Longrightarrow> rootOrEmpty (pat[i := Some 0])"
  unfolding rootOrEmpty_def list_all_iff
  using set_update_subset_insert[of pat i "Some 0"] by auto

lemma bassStep_rootOrEmpty: "rootOrEmpty (fst acc) \<Longrightarrow> rootOrEmpty (fst (bassStep p i acc))"
  by (auto simp add: bassStep_def Let_def Math_random_def rootOrEmpty_update split: prod.splits)

lemma fold_bassStep_rootOrEmpty:
  "rootOrEmpty (fst acc) \<Longrightarrow> rootOrEmpty (fst (fold (bassStep p) xs acc))"
  by (induction xs arbitrary: acc) (simp_all add: bassStep_rootOrEmpty)

lemma selectScale_length: "5 \<le> length (selectScale st) \<and> length (selectScale st) \<le> 7"
  by (simp add: selectScale_def SCALES_dorian_def SCALES_phrygian_def SCALES_major_def
      SCALES_harmonic_minor_def SCALES_lydian_def SCALES_minor_def)

lemma selectForm_entries: "list_all (\<lambda>i. i < 2) (selectForm c)"
  by (simp add: selectForm_def Let_def)

lemma gen_scale: "scale (fst (generateComposition r s)) = selectScale (style (params s))"
  by (simp add: generateComposition_def Let_def split: prod.splits)

lemma gen_form: "form (fst (generateComposition r s)) = selectForm (complexity (params s))"
  by (simp add: generateComposition_def Let_def split: prod.splits)

lemma gen_sections_length: "length (sections (fst (generateComposition r s))) = 2"
  by (simp add: generateComposition_def Let_def split: prod.splits)

lemma gen_melody_length: "length (melodyPattern (fst (generateComposition r s))) = 16"
  using fold_melodyStep_length[of "params s" "[0..<16]"]
  by (simp add: generateComposition_def Let_def split: prod.splits)
     (metis fst_conv length_replicate)

lemma gen_bass_length: "length (bassPattern (fst (generateComposition r s))) = 16"
  using fold_bassStep_length[of "params s" "[0..<16]"]
  by (simp add: generateComposition_def Let_def split: prod.splits)
     (metis fst_conv length_replicate)

lemma gen_bass_rootOrEmpty: "rootOrEmpty (bassPattern (fst (generateComposition r s)))"
proof -
  have "rootOrEmpty (replicate 16 None)"
    by (simp add: rootOrEmpty_def list_all_iff)
  then have *: "\<And>r. rootOrEmpty (fst (fold (bassStep (params s)) [0..<16] (replicate 16 None, r)))"
    using fold_bassStep_rootOrEmpty by simp
  show ?thesis
    by (simp add: generateComposition_def Let_def split: prod.splits)
       (metis * fst_conv rootOrEmpty_update)
qed

text \<open>
  Claim C3. Composition generation is a total function with no failing step (nothing in it
  can throw), and for every parameter record and every random source the generated form
  only holds valid indices into the two-entry sections array, the melody and bass patterns
  have exactly 16 entries each, and the scale has between 5 and 7 entries.
\<close>

theorem generateComposition_shape:
  "length (sections (fst (generateComposition r s))) = 2
   \<and> list_all (\<lambda>i. i < length (sections (fst (generateComposition r s))))
        (form (fst (generateComposition r s)))
   \<and> length (melodyPattern (fst (generateComposition r s))) = 16
   \<and> length (bassPattern (fst (generateComposition r s))) = 16
   \<and> 5 \<le> length (scale (fst (generateComposition r s)))
   \<and> length (scale (fst (generateComposition r s))) \<le> 7"
  by (simp add: gen_sections_length gen_form selectForm_entries gen_melody_length
      gen_bass_length gen_scale selectScale_length)

text \<open>
  Claim C8. The form depends on the complexity alone, with the hard thresholds 0.3 and 0.6:
  below 0.3 it is the four-step form of zeros, above 0.6 the eight-step form, and for every
  other complexity, exactly 0.3 and exactly 0.6 included, the four-step form A-A-B-A.
\<close>

theorem form_selection:
  "form (fst (generateComposition r s)) =
     (if complexity (params s) < 0.3 then [0, 0, 0, 0]
      else if complexity (params s) > 0.6 then [0, 0, 1, 0, 0, 1, 1, 0]
      else [0, 0, 1, 0])
   \<and> selectForm 0.3 = [0, 0, 1, 0] \<and> selectForm 0.6 = [0, 0, 1, 0]"
  by (simp add: gen_form selectForm_def Let_def)

section \<open>The bass line and the guards of the signal graph\<close>

lemma isPlayBass_kick [simp]: "filter isPlayBass (kickCalls beat t fist bd s) = []"
  by (simp add: kickCalls_def Let_def)

lemma isPlayBass_snare [simp]: "filter isPlayBass (snareCalls beat t fist bd s) = []"
  by (simp add: snareCalls_def)

lemma isPlayBass_hat [simp]: "filter isPlayBass (hatCalls beat t fist pinching s) = []"
  by (simp add: hatCalls_def Let_def)

lemma isPlayBass_chord: "chordCalls beat t fist s = Inr ch \<Longrightarrow> filter isPlayBass ch = []"
  by (auto simp add: chordCalls_def playChord_def split: if_splits sum.splits)

lemma isPlayBass_lead: "leadCalls beat t fist pinching s = Inr ld \<Longrightarrow> filter isPlayBass ld = []"
  by (auto simp add: leadCalls_def Let_def split: if_splits sum.splits)

lemma scheduleNote_bass:
  assumes "ctx s \<noteq> None" "scheduleNote beat t s = Inr s'"
  shows "\<exists>bs. bassCalls beat t (isFist (currentGestures s)) (isBreakdown s) s = Inr bs
    \<and> filter isPlayBass (newCalls s s') = bs"
proof -
  from assms(1) obtain c where c: "ctx s = Some c" by auto
  let ?fist = "isFist (currentGestures s)"
  let ?pinch = "isPinching (currentGestures s)"
  from assms(2) obtain ch bs ld where
    ch: "chordCalls beat t ?fist s = Inr ch" and
    bs: "bassCalls beat t ?fist (isBreakdown s) s = Inr bs" and
    ld: "leadCalls beat t ?fist ?pinch s = Inr ld"
    by (auto simp add: scheduleNote_def c Let_def split: sum.splits)
  have bsf: "filter isPlayBass bs = bs"
    using bs by (auto simp add: bassCalls_def Let_def split: if_splits sum.splits)
  have "filter isPlayBass (newCalls s s') = bs"
    using assms(2)
    by (auto simp add: scheduleNote_def c Let_def ch bs ld newCalls_def
        isPlayBass_chord[OF ch] isPlayBass_lead[OF ld] bsf)
  with bs show ?thesis by blast
qed

lemma bass_root_aux:
  assumes "ctx s \<noteq> None"
    and "array_get (bassPattern s) (int beat) = Some (Some 0)"
    and "\<not> isFist (currentGestures s)" and "\<not> isBreakdown s"
    and "scheduleNote beat t s = Inr s'"
  shows "\<exists>q. currentChordSequence s = Some q
    \<and> filter isPlayBass (newCalls s s') =
        [PlayBass t (getFreq s (array_get q (int (globalBar s mod 4))) 0)]"
proof -
  obtain bs where bs: "bassCalls beat t (isFist (currentGestures s)) (isBreakdown s) s = Inr bs"
    and f: "filter isPlayBass (newCalls s s') = bs"
    using scheduleNote_bass[OF assms(1,5)] by blast
  from bs assms(2,3,4) obtain q where q: "currentChordSequence s = Some q"
    by (cases "currentChordSequence s") (auto simp add: bassCalls_def chordRootAt_def Let_def)
  from bs assms(2,3,4) q have "bs = [PlayBass t (getFreq s (array_get q (int (globalBar s mod 4))) 0)]"
    by (auto simp add: bassCalls_def chordRootAt_def Let_def)
  with q f show ?thesis by simp
qed

lemma bass_always_root:
  assumes "rootOrEmpty (bassPattern s)" "beat < length (bassPattern s)"
    and "scheduleNote beat t s = Inr s'"
  shows "list_all (\<lambda>c. \<exists>q. currentChordSequence s = Some q
            \<and> c = PlayBass t (getFreq s (array_get q (int (globalBar s mod 4))) 0))
          (filter isPlayBass (newCalls s s'))"
proof (cases "ctx s")
  case None
  with assms(3) have "s' = s" by (simp add: scheduleNote_def)
  then show ?thesis by (simp add: newCalls_def)
next
  case (Some c)
  then have c: "ctx s \<noteq> None" by simp
  obtain bs where bs: "bassCalls beat t (isFist (currentGestures s)) (isBreakdown s) s = Inr bs"
    and f: "filter isPlayBass (newCalls s s') = bs"
    using scheduleNote_bass[OF c assms(3)] by blast
  from assms(1,2) have slot: "bassPattern s ! beat = None \<or> bassPattern s ! beat = Some 0"
    by (simp add: rootOrEmpty_def list_all_length)
  have get: "array_get (bassPattern s) (int beat) = Some (bassPattern s ! beat)"
    using assms(2) by (simp add: array_get_def)
  from slot show ?thesis
  proof
    assume "bassPattern s ! beat = None"
    with bs get have "bs = []"
      by (auto simp add: bassCalls_def Let_def split: if_splits)
    with f show ?thesis by simp
  next
    assume z: "bassPattern s ! beat = Some 0"
    show ?thesis
    proof (cases "\<not> isFist (currentGestures s) \<and> \<not> isBreakdown s")
      case True
      then obtain q where "currentChordSequence s = Some q"
        "filter isPlayBass (newCalls s s') = [PlayBass t (getFreq s (array_get q (int (globalBar s mod 4))) 0)]"
        using bass_root_aux[OF c _ _ _ assms(3)] get z by auto
      then show ?thesis by simp
    next
      case False
      with bs have "bs = []" by (auto simp add: bassCalls_def)
      with f show ?thesis by simp
    qed
  qed
qed

text \<open>
  Claim C6. At a step whose bass slot holds the value 0, and at which a bass note is
  scheduled (no fist gesture, no breakdown), the one bass note that \<open>scheduleNote\<close> sends
  to \<open>playBass\<close> has the frequency \<open>getFreq\<close> of the current chord's root, the entry
  \<open>bar mod 4\<close> of \<open>currentChordSequence\<close>, and not that of the literal degree 0.
\<close>

theorem bass_root_substitution:
  assumes "ctx s \<noteq> None"
    and "array_get (bassPattern s) (int beat) = Some (Some 0)"
    and "\<not> isFist (currentGestures s)" and "\<not> isBreakdown s"
    and "scheduleNote beat t s = Inr s'"
  shows "\<exists>q. currentChordSequence s = Some q
    \<and> filter isPlayBass (newCalls s s') =
        [PlayBass t (getFreq s (array_get q (int (globalBar s mod 4))) 0)]"
  using assms by (rule bass_root_aux)

text \<open>
  Claim C9. While the signal graph has not been constructed (the audio context is null),
  \<open>scheduleNote\<close> and \<open>updateControlParams\<close> return at once, without an error, and leave
  the whole engine state unchanged, the stored gesture snapshot included.
\<close>

theorem not_constructed_noop:
  assumes "ctx s = None"
  shows "scheduleNote beat t s = Inr s \<and> updateControlParams g s = Inr s"
  using assms by (simp add: scheduleNote_def updateControlParams_def)

text \<open>
  Claim C7. For every integer scale degree, negative ones and ones beyond an octave
  included, the index \<open>((d % len) + len) % len\<close> that \<open>getFreq\<close> computes lies inside the
  scale, so the read is defined, and the frequency returned is the base frequency times
  two to the power of a twelfth of \<open>scale[d mod len] + 12 * floor (d / len)\<close> semitones.
  This holds for every scale that is not empty, so for the lengths 5 to 7 of the tables,
  and the power is taken over the real numbers.
\<close>

theorem getFreq_in_bounds:
  assumes "scale s \<noteq> []" and "0 < baseNoteFrequency (params s)"
  shows "0 \<le> normDegree d (int (length (scale s)))
    \<and> normDegree d (int (length (scale s))) < int (length (scale s))
    \<and> array_get (scale s) (normDegree d (int (length (scale s))))
        = Some (scale s ! nat (d mod int (length (scale s))))
    \<and> getFreq s (Some d) 0 =
        Some (baseNoteFrequency (params s) *
          2 powr (real_of_int (scale s ! nat (d mod int (length (scale s)))
                    + 12 * (d div int (length (scale s)))) / 12))"
proof -
  have n: "0 < int (length (scale s))" using assms(1) by simp
  have "getFreq s (Some d) 0 =
        Some (baseNoteFrequency (params s) *
          2 powr (real_of_int (scale s ! nat (d mod int (length (scale s)))
                    + 12 * (d div int (length (scale s)))) / 12))"
    using getFreq_eq[OF assms, of d 0] by simp
  then show ?thesis
    using n by (simp add: normDegree_mod array_get_def)
qed

section \<open>A concrete run\<close>

lemma Math_random_const: "Math_random (constRng v) = (v, constRng v)"
  by (simp add: Math_random_def constRng_def)

lemma upt16: "[0..<16] = [0, 1, 2, 3, 4, 5, 6, 7, 8, 9, 10, 11, 12, 13, 14, 15 :: nat]"
  by code_simp

lemma fold16:
  "fold f [0..<16] a =
    f 15 (f 14 (f 13 (f 12 (f 11 (f 10 (f 9 (f 8 (f 7 (f 6 (f 5 (f 4 (f 3 (f 2 (f 1 (f 0 a)))))))))))))))"
  by (simp add: upt16)

lemma fallback_fields:
  "style fallbackParams = techno" "complexity fallbackParams = 1 / 2"
  "bpm fallbackParams = 128" "baseNoteFrequency fallbackParams = 55"
  by (simp_all add: fallbackParams_def)

lemma melodyStep_half:
  "melodyStep fallbackParams i (pat, constRng (1 / 2)) = (pat, constRng (1 / 2))"
  by (simp add: melodyStep_def Math_random_const fallback_fields Let_def)

lemma bassStep_half:
  "bassStep fallbackParams i (pat, constRng (1 / 2)) =
    ((if i mod 2 \<noteq> 0 then pat[i := Some 0] else pat), constRng (1 / 2))"
  by (simp add: bassStep_def Math_random_const fallback_fields Let_def)

lemma melody_fold_half:
  "fold (melodyStep fallbackParams) [0..<16] (pat, constRng (1 / 2)) = (pat, constRng (1 / 2))"
  by (simp add: fold16 melodyStep_half)

lemma replicate16: "replicate 16 x = [x, x, x, x, x, x, x, x, x, x, x, x, x, x, x, x]"
  by (simp add: numeral_eq_Suc)

lemma bass_fold_half:
  "fold (bassStep fallbackParams) [0..<16] (replicate 16 None, constRng (1 / 2)) =
    ([None, Some 0, None, Some 0, None, Some 0, None, Some 0, None, Some 0, None, Some 0,
      None, Some 0, None, Some 0], constRng (1 / 2))"
  by (simp add: fold16 bassStep_half replicate16)

lemma pickProg_const:
  "pickProg arr (constRng v) = (array_get arr \<lfloor>v * real (length arr)\<rfloor>, constRng v)"
  by (simp add: pickProg_def Math_random_const)

lemma engine0_eq: "engine0 = engine0_explicit"
  by (simp add: engine0_def newAudioEngine_def generateComposition_def fieldDefaults_def
      CHORD_POOLS_def CHORD_POOLS_techno_def pickProg_const array_get_def melody_fold_half
      bass_fold_half
      fallback_fields selectScale_def selectForm_def SCALES_phrygian_def engine0_explicit_def)

lemma start_general:
  "start c0 s = Some (Inr (armTimer
     ((case ctx (if ctx s = None then init c0 s else s) of
         Some c \<Rightarrow> if state c = suspended
                   then (if ctx s = None then init c0 s else s)\<lparr>ctx := Some (c\<lparr>state := running\<rparr>)\<rparr>
                   else (if ctx s = None then init c0 s else s)
       | None \<Rightarrow> (if ctx s = None then init c0 s else s))
      \<lparr>isPlaying := True, current16thNote := 0, globalBar := 0,
        nextNoteTime := currentTime (case ctx s of None \<Rightarrow> c0 | Some c \<Rightarrow> c) + 0.1\<rparr>)))"
  by (cases "ctx s")
     (simp_all add: start_def Let_def init_def scheduler_def schedulerLoop_idle scheduleAheadTime_def)

lemma start_fields:
  "\<exists>s'. start c0 s = Some (Inr s') \<and> isPlaying s' \<and> current16thNote s' = 0 \<and> globalBar s' = 0
     \<and> intensity s' = intensity s \<and> activeSectionIdx s' = activeSectionIdx s
     \<and> ctx s' \<noteq> None"
  by (cases "ctx s"; cases "state (the (ctx s)) = suspended")
     (simp_all add: start_general armTimer_def init_def Let_def)

lemma started0_eq: "started0 = started0_explicit"
  by (simp add: started0_def resultOr_def start_general engine0_eq engine0_explicit_def
        init_def armTimer_def ctx0_def Let_def fallback_fields started0_explicit_def)
     (simp add: fallbackParams_def)

lemma start_engine0: "start ctx0 engine0 = Some (Inr started0)"
  by (simp add: started0_def resultOr_def start_general)

section \<open>Start, restart and gesture updates\<close>

lemma clocked_fields:
  "ctx (setClock (19 / 10) started0) = Some \<lparr>state = running, currentTime = 19 / 10\<rparr>"
  "isPlaying (setClock (19 / 10) started0)"
  "nextNoteTime (setClock (19 / 10) started0) = 1 / 10"
  "sixteenth (setClock (19 / 10) started0) = 15 / 128"
  "current16thNote (setClock (19 / 10) started0) = 0"
  "globalBar (setClock (19 / 10) started0) = 0"
  "intensity (setClock (19 / 10) started0) = 0"
  by (simp_all add: started0_eq started0_explicit_def engine0_explicit_def setClock_def
      sixteenth_def fallback_fields)

lemma clocked_wellFormed: "wellFormed (setClock (19 / 10) started0)"
  by (simp add: wellFormed_def started0_eq started0_explicit_def engine0_explicit_def setClock_def)

lemma afterOneBar_run:
  "\<exists>cs. scheduler (setClock (19 / 10) started0) = Some (Inr afterOneBar)
     \<and> afterOneBar = armTimer (((nextNote ^^ 17) (setClock (19 / 10) started0))\<lparr>calls := cs\<rparr>)"
proof -
  let ?s = "setClock (19 / 10) started0"
  have a: "\<forall>k<17. nextNoteTime ?s + real k * sixteenth ?s
            < currentTime \<lparr>state = running, currentTime = 19 / 10\<rparr> + scheduleAheadTime"
  proof (intro allI impI)
    fix k :: nat assume "k < 17"
    then have "real k \<le> 16" by simp
    then show "nextNoteTime ?s + real k * sixteenth ?s
            < currentTime \<lparr>state = running, currentTime = 19 / 10\<rparr> + scheduleAheadTime"
      by (simp add: clocked_fields scheduleAheadTime_def)
  qed
  have b: "\<not> nextNoteTime ?s + real 17 * sixteenth ?s
            < currentTime \<lparr>state = running, currentTime = 19 / 10\<rparr> + scheduleAheadTime"
    by (simp add: clocked_fields scheduleAheadTime_def)
  obtain cs where cs: "scheduler ?s = Some (Inr (armTimer (((nextNote ^^ 17) ?s)\<lparr>calls := calls ?s @ cs\<rparr>)))"
    using scheduler_run[OF clocked_fields(1) clocked_fields(2) clocked_wellFormed a b] by blast
  then have "afterOneBar = armTimer (((nextNote ^^ 17) ?s)\<lparr>calls := calls ?s @ cs\<rparr>)"
    by (simp add: afterOneBar_def resultOr_def)
  with cs show ?thesis by metis
qed

lemma afterOneBar_fields:
  "isPlaying afterOneBar" "current16thNote afterOneBar = 1" "globalBar afterOneBar = 1"
  "intensity afterOneBar = 1 / 64" "ctx afterOneBar \<noteq> None"
proof -
  let ?s = "setClock (19 / 10) started0"
  obtain cs where e: "afterOneBar = armTimer (((nextNote ^^ 17) ?s)\<lparr>calls := cs\<rparr>)"
    using afterOneBar_run by blast
  have c: "globalBar ((nextNote ^^ 17) ?s) = 1 \<and> current16thNote ((nextNote ^^ 17) ?s) = 1"
    using funpow_nextNote_counters[of ?s 17] by (simp add: clocked_fields)
  have "intensityInv ?s" by (simp add: intensityInv_def clocked_fields)
  then have "intensityInv ((nextNote ^^ 17) ?s)" by (rule funpow_nextNote_intensityInv)
  then have i: "intensity ((nextNote ^^ 17) ?s) = 1 / 64"
    using c by (simp add: intensityInv_def)
  show "isPlaying afterOneBar" by (simp add: e armTimer_def funpow_nextNote_frame clocked_fields)
  show "current16thNote afterOneBar = 1" by (simp add: e armTimer_def c)
  show "globalBar afterOneBar = 1" by (simp add: e armTimer_def c)
  show "intensity afterOneBar = 1 / 64" by (simp add: e armTimer_def i)
  show "ctx afterOneBar \<noteq> None" by (simp add: e armTimer_def funpow_nextNote_frame clocked_fields)
qed

lemma stop_fields:
  "\<not> isPlaying (stop s)" "globalBar (stop s) = globalBar s" "intensity (stop s) = intensity s"
  "current16thNote (stop s) = current16thNote s" "ctx (stop s) = ctx s"
  by (simp_all add: stop_def)

lemma start_result:
  "start c0 s = Some (Inr (resultOr d (start c0 s)))
   \<and> isPlaying (resultOr d (start c0 s)) \<and> current16thNote (resultOr d (start c0 s)) = 0
   \<and> globalBar (resultOr d (start c0 s)) = 0 \<and> intensity (resultOr d (start c0 s)) = intensity s"
  using start_fields[of c0 s] by (auto simp add: resultOr_def)

text \<open>
  Claim C1, as the code has it. Every call of \<open>start\<close> returns with the engine playing and
  with the step counter and the bar counter at zero, whether the engine was stopped or
  already running: \<open>start\<close> does not look at the playing flag.
\<close>

theorem start_always_resets:
  "\<exists>s'. start c0 s = Some (Inr s') \<and> isPlaying s' \<and> current16thNote s' = 0 \<and> globalBar s' = 0"
  using start_fields[of c0 s] by blast

text \<open>
  Claim C1 fails on the running engine: the engine of the fallback parameters is started,
  plays into step 1 of bar 1, and a second \<open>start\<close> puts both counters back to zero.
\<close>

theorem start_while_running_resets:
  "start ctx0 engine0 = Some (Inr started0)
   \<and> scheduler (setClock (19 / 10) started0) = Some (Inr afterOneBar)
   \<and> isPlaying afterOneBar \<and> current16thNote afterOneBar = 1 \<and> globalBar afterOneBar = 1
   \<and> start ctx0 afterOneBar = Some (Inr restartedRunning)
   \<and> current16thNote restartedRunning = 0 \<and> globalBar restartedRunning = 0"
  using afterOneBar_run start_result[of ctx0 afterOneBar afterOneBar]
  by (auto simp add: start_engine0 afterOneBar_fields restartedRunning_def)

text \<open>
  Claim C4 at a restart. After one bar the intensity is 1/64; the engine is stopped and
  started again; \<open>start\<close> resets the bar counter and leaves the intensity as it was, so in
  bar 0 of the second run the intensity is 1/64 and not \<open>min 1 (bar / 64) = 0\<close>.
\<close>

theorem intensity_stale_after_restart:
  "start ctx0 engine0 = Some (Inr started0)
   \<and> scheduler (setClock (19 / 10) started0) = Some (Inr afterOneBar)
   \<and> globalBar afterOneBar = 1 \<and> intensity afterOneBar = 1 / 64
   \<and> start ctx0 (stop afterOneBar) = Some (Inr restarted)
   \<and> isPlaying restarted \<and> globalBar restarted = 0
   \<and> intensity restarted = 1 / 64
   \<and> intensity restarted \<noteq> min 1 (real (globalBar restarted) / 64)"
  using afterOneBar_run start_result[of ctx0 "stop afterOneBar" afterOneBar]
  by (auto simp add: start_engine0 afterOneBar_fields restarted_def stop_fields)

text \<open>
  Claim C2, as the code has it. A gesture update whose visible flag is false pushes no
  parameter: the filter with its cutoff and resonance and the three gains stay as they
  were. On a constructed graph the one change is that the stored gesture snapshot becomes
  the update as it was passed, with its own fist and pinch flags.
\<close>

theorem invisible_update_replaces_snapshot:
  assumes "\<not> isVisible g"
  shows "\<exists>s'. updateControlParams g s = Inr s'
    \<and> s' = (if ctx s = None \<or> filterNode s = None \<or> distortionNode s = None then s
             else s\<lparr>currentGestures := g\<rparr>)
    \<and> filterNode s' = filterNode s \<and> masterGain s' = masterGain s
    \<and> reverbGain s' = reverbGain s \<and> delayFeedback s' = delayFeedback s"
  using assms by (simp add: updateControlParams_def Let_def split: option.splits)

text \<open>Claim C2, as the code has it, on the started engine, for the unseen fist.\<close>

theorem invisible_update_replaces_snapshot_witness:
  "\<not> isVisible unseenFist
   \<and> updateControlParams unseenFist started0 = Inr (started0\<lparr>currentGestures := unseenFist\<rparr>)
   \<and> filterNode (started0\<lparr>currentGestures := unseenFist\<rparr>) = filterNode started0"
  using invisible_update_replaces_snapshot[of unseenFist started0]
  by (auto simp add: unseenFist_def defaultGestures_def started0_eq started0_explicit_def)

lemma note0_plain:
  "scheduleNote 0 (1 / 10) started0 =
       Inr (started0\<lparr>calls := [StepTimer 0 100, PlayKick (1 / 10) 1 (1 / 2),
              PlayHiHat (1 / 10) (3 / 10) (1 / 20), PlayChord (1 / 10) False 0,
              PlayBass (1 / 10) (getFreq started0 (Some 0) 0)]\<rparr>)"
  by (simp add: started0_eq started0_explicit_def engine0_explicit_def defaultGestures_def
      scheduleNote_def isBreakdown_def chordCalls_def playChord_def chordRootAt_def bassCalls_def
      leadCalls_def kickCalls_def snareCalls_def hatCalls_def array_get_def fallback_fields
      Let_def replicate16)

lemma note0_fist:
  "scheduleNote 0 (1 / 10) (started0\<lparr>currentGestures := unseenFist\<rparr>) =
       Inr (started0\<lparr>currentGestures := unseenFist,
              calls := [StepTimer 0 100, PlayChord (1 / 10) True 0]\<rparr>)"
  by (simp add: started0_eq started0_explicit_def engine0_explicit_def defaultGestures_def
      unseenFist_def
      scheduleNote_def isBreakdown_def chordCalls_def playChord_def chordRootAt_def bassCalls_def
      leadCalls_def kickCalls_def snareCalls_def hatCalls_def array_get_def fallback_fields
      Let_def replicate16)

text \<open>
  Claim C2 fails for the snapshot: on the started engine, whose snapshot is the neutral
  default, the update of an unseen fist is stored with its fist flag, and the next
  realization of step 0 leaves out the kick, the hi-hat and the bass that it would have
  played.
\<close>

theorem unseen_fist_silences_drums:
  "\<not> isVisible unseenFist
   \<and> currentGestures started0 = defaultGestures
   \<and> updateControlParams unseenFist started0 = Inr (started0\<lparr>currentGestures := unseenFist\<rparr>)
   \<and> isFist (currentGestures (started0\<lparr>currentGestures := unseenFist\<rparr>))
   \<and> scheduleNote 0 (1 / 10) started0 =
       Inr (started0\<lparr>calls := [StepTimer 0 100, PlayKick (1 / 10) 1 (1 / 2),
              PlayHiHat (1 / 10) (3 / 10) (1 / 20), PlayChord (1 / 10) False 0,
              PlayBass (1 / 10) (getFreq started0 (Some 0) 0)]\<rparr>)
   \<and> scheduleNote 0 (1 / 10) (started0\<lparr>currentGestures := unseenFist\<rparr>) =
       Inr (started0\<lparr>currentGestures := unseenFist,
              calls := [StepTimer 0 100, PlayChord (1 / 10) True 0]\<rparr>)"
proof -
  have "\<not> isVisible unseenFist"
    by (simp add: unseenFist_def defaultGestures_def)
  moreover have "currentGestures started0 = defaultGestures"
    by (simp add: started0_eq started0_explicit_def engine0_explicit_def)
  moreover have "updateControlParams unseenFist started0 = Inr (started0\<lparr>currentGestures := unseenFist\<rparr>)"
    by (simp add: updateControlParams_def unseenFist_def defaultGestures_def started0_eq
        started0_explicit_def)
  moreover have "isFist (currentGestures (started0\<lparr>currentGestures := unseenFist\<rparr>))"
    by (simp add: unseenFist_def)
  ultimately show ?thesis
    using note0_plain note0_fist by simp
qed

section \<open>Song form\<close>

lemma gen_params: "params (fst (generateComposition r s)) = params s"
  by (simp add: generateComposition_def Let_def split: prod.splits)

lemma engine8_form: "form engine8 = [0, 0, 1, 0, 0, 1, 1, 0]"
  by (simp add: engine8_def newAudioEngine_def gen_form fieldDefaults_def complexParams_def
      selectForm_def)

lemma mod32_split: "(b::nat) mod 32 = 4 * ((b div 4) mod 8) + b mod 4"
  using mod_mult2_eq[of b 4 8] by simp

lemma form8_sections:
  fixes b :: nat
  shows "([0, 0, 1, 0, 0, 1, 1, 0] ! ((b div 4) mod 8) = (1::nat))
     \<longleftrightarrow> b mod 32 \<in> {8..<12} \<union> {20..<28}"
proof -
  define j where "j = (b div 4) mod 8"
  define r where "r = b mod 4"
  have j: "j < 8" by (simp add: j_def)
  have m: "b mod 32 = 4 * j + r" unfolding j_def r_def by (rule mod32_split)
  have r: "r < 4" by (simp add: r_def)
  from j consider "j = 0" | "j = 1" | "j = 2" | "j = 3" | "j = 4" | "j = 5" | "j = 6" | "j = 7"
    by linarith
  then have "([0, 0, 1, 0, 0, 1, 1, 0] ! j = (1::nat)) \<longleftrightarrow> 4 * j + r \<in> {8..<12} \<union> {20..<28}"
    using r by cases auto
  then show ?thesis by (simp only: m j_def)
qed

lemma segment_starts:
  fixes b :: nat
  shows "(b mod 4 = 0 \<and> b mod 32 \<in> {8..<12} \<union> {20..<28}) \<longleftrightarrow> b mod 32 \<in> {8, 20, 24}"
proof -
  have "b mod 32 mod 4 = b mod 4" by (simp add: mod_mod_cancel)
  then have "(b mod 4 = 0) = (b mod 32 mod 4 = 0)" by simp
  moreover have "\<And>c::nat. (c mod 4 = 0 \<and> c \<in> {8..<12} \<union> {20..<28}) \<longleftrightarrow> c \<in> {8, 20, 24}"
    by (simp, presburger)
  ultimately show ?thesis by simp
qed

text \<open>
  Claim C5, as the code has it. At every bar boundary, the call of \<open>nextNote\<close> that leaves
  step 15, the bar counter goes up by one and the active section becomes the form entry
  \<open>floor (bar / 4) mod form.length\<close> of the new bar. For the eight-entry form A-A-B-A-A-B-B-A
  section B is active in the bars 8 to 11 and 20 to 27 of each cycle of 32 bars, so the
  four-bar segments that select B begin exactly at the bars 8, 20 and 24.
\<close>

theorem section_recomputed_each_bar:
  assumes "current16thNote s = 15" and "form s \<noteq> []"
  shows "globalBar (nextNote s) = globalBar s + 1
    \<and> activeSectionIdx (nextNote s) =
        array_get (form s) (int ((globalBar (nextNote s) div 4) mod length (form s)))
    \<and> (form s = [0, 0, 1, 0, 0, 1, 1, 0] \<longrightarrow>
         ((activeSectionIdx (nextNote s) = Some 1)
            = (globalBar (nextNote s) mod 32 \<in> {8..<12} \<union> {20..<28}))
         \<and> ((globalBar (nextNote s) mod 4 = 0 \<and> activeSectionIdx (nextNote s) = Some 1)
            = (globalBar (nextNote s) mod 32 \<in> {8, 20, 24})))"
proof -
  let ?b = "globalBar (nextNote s)"
  have b: "?b = globalBar s + 1"
    using assms(1) by (simp add: nextNote_wrap)
  have a: "activeSectionIdx (nextNote s) = array_get (form s) (int ((?b div 4) mod length (form s)))"
    using nextNote_section[OF assms] b by simp
  have "(activeSectionIdx (nextNote s) = Some 1) = (?b mod 32 \<in> {8..<12} \<union> {20..<28})
      \<and> ((?b mod 4 = 0 \<and> activeSectionIdx (nextNote s) = Some 1) = (?b mod 32 \<in> {8, 20, 24}))"
    if f: "form s = [0, 0, 1, 0, 0, 1, 1, 0]"
  proof -
    have "activeSectionIdx (nextNote s) = Some ([0, 0, 1, 0, 0, 1, 1, 0] ! ((?b div 4) mod 8))"
      using a by (simp add: f array_get_def)
    then have one: "(activeSectionIdx (nextNote s) = Some 1) = (?b mod 32 \<in> {8..<12} \<union> {20..<28})"
      using form8_sections[of ?b] by simp
    show ?thesis unfolding one using segment_starts[of ?b] by simp
  qed
  with b a show ?thesis by blast
qed

text \<open>Claim C5 on the engine of high complexity, at the boundary into bar 8.\<close>

theorem section_recomputed_each_bar_witness:
  "current16thNote (engine8\<lparr>current16thNote := 15, globalBar := 7\<rparr>) = 15
   \<and> form (engine8\<lparr>current16thNote := 15, globalBar := 7\<rparr>) = [0, 0, 1, 0, 0, 1, 1, 0]
   \<and> globalBar (nextNote (engine8\<lparr>current16thNote := 15, globalBar := 7\<rparr>)) = 8
   \<and> activeSectionIdx (nextNote (engine8\<lparr>current16thNote := 15, globalBar := 7\<rparr>)) = Some 1"
  using section_recomputed_each_bar[of "engine8\<lparr>current16thNote := 15, globalBar := 7\<rparr>"]
  by (simp add: engine8_form array_get_def)

text \<open>
  Claim C5 fails as worded, that B is taken at the bars 8, 20 and 24 and at no other bar:
  on the engine of high complexity the boundary into bar 9 sets section B as well, and
  at the boundary into bar 24 the section set at bar 23 is B already, so nothing changes
  to B there.
\<close>

theorem section_B_at_other_bars:
  "form (engine8\<lparr>current16thNote := 15, globalBar := 8\<rparr>) = [0, 0, 1, 0, 0, 1, 1, 0]
   \<and> globalBar (nextNote (engine8\<lparr>current16thNote := 15, globalBar := 8\<rparr>)) = 9
   \<and> activeSectionIdx (nextNote (engine8\<lparr>current16thNote := 15, globalBar := 8\<rparr>)) = Some 1
   \<and> globalBar (nextNote (engine8\<lparr>current16thNote := 15, globalBar := 22\<rparr>)) = 23
   \<and> activeSectionIdx (nextNote (engine8\<lparr>current16thNote := 15, globalBar := 22\<rparr>)) = Some 1
   \<and> globalBar (nextNote (engine8\<lparr>current16thNote := 15, globalBar := 23\<rparr>)) = 24
   \<and> activeSectionIdx (nextNote (engine8\<lparr>current16thNote := 15, globalBar := 23\<rparr>)) = Some 1"
proof -
  have f: "\<And>g. form (engine8\<lparr>current16thNote := 15, globalBar := g\<rparr>) = [0, 0, 1, 0, 0, 1, 1, 0]"
    by (simp add: engine8_form)
  have b: "\<And>g. globalBar (nextNote (engine8\<lparr>current16thNote := 15, globalBar := g\<rparr>)) = g + 1"
    by (simp add: nextNote_wrap)
  have a: "\<And>g. activeSectionIdx (nextNote (engine8\<lparr>current16thNote := 15, globalBar := g\<rparr>)) =
      array_get [0, 0, 1, 0, 0, 1, 1, 0] (int (((g + 1) div 4) mod 8))"
    using nextNote_section[of "engine8\<lparr>current16thNote := 15, globalBar := g\<rparr>" for g]
    by (simp add: engine8_form)
  show ?thesis
    by (simp add: f b a array_get_def)
qed

text \<open>
  Claim C10. Every slot of a generated bass pattern is empty or holds the value 0, for
  every parameter record and random source. So on every engine that carries such a pattern,
  every bass note that a step of the bar realizes has the frequency of the current chord's
  root; no other scale degree reaches the bass.
\<close>

theorem generated_bass_is_root:
  "rootOrEmpty (bassPattern (fst (generateComposition r s0)))
   \<and> (\<forall>s beat t s'.
        bassPattern s = bassPattern (fst (generateComposition r s0)) \<and> beat < 16
        \<and> scheduleNote beat t s = Inr s'
        \<longrightarrow> list_all (\<lambda>c. \<exists>q. currentChordSequence s = Some q
                  \<and> c = PlayBass t (getFreq s (array_get q (int (globalBar s mod 4))) 0))
              (filter isPlayBass (newCalls s s')))"
proof (intro conjI allI impI)
  show "rootOrEmpty (bassPattern (fst (generateComposition r s0)))"
    by (rule gen_bass_rootOrEmpty)
next
  fix s beat t s'
  assume h: "bassPattern s = bassPattern (fst (generateComposition r s0)) \<and> beat < 16
        \<and> scheduleNote beat t s = Inr s'"
  then have "rootOrEmpty (bassPattern s)" "beat < length (bassPattern s)"
    by (simp_all add: gen_bass_rootOrEmpty gen_bass_length)
  with h show "list_all (\<lambda>c. \<exists>q. currentChordSequence s = Some q
                  \<and> c = PlayBass t (getFreq s (array_get q (int (globalBar s mod 4))) 0))
              (filter isPlayBass (newCalls s s'))"
    using bass_always_root by blast
qed

lemma barOne_fields:
  "ctx barOne \<noteq> None" "bassPattern barOne = bassPattern engine0"
  "array_get (bassPattern barOne) 1 = Some (Some 0)"
  "\<not> isFist (currentGestures barOne)" "\<not> isBreakdown barOne"
  "currentChordSequence barOne = Some [0, - 2, 0, - 2]" "globalBar barOne = 1"
  "scale barOne = [0, 1, 3, 5, 7, 8, 10]" "baseNoteFrequency (params barOne) = 55"
  by (simp_all add: barOne_def started0_eq started0_explicit_def engine0_eq engine0_explicit_def
      array_get_def defaultGestures_def isBreakdown_def fallback_fields)

lemma barOne_note:
  "\<exists>s'. scheduleNote 1 t barOne = Inr s'"
  using scheduleNote_ok[of barOne _ 1 t] barOne_fields(6) by blast

section \<open>The claims on the concrete engine\<close>

text \<open>
  Claim C6 in bar 1 of the fallback engine, where the chord root is the degree -2: the bass
  note of step 1 has the frequency of the degree -2, which is not that of the degree 0.
\<close>

theorem bass_root_substitution_witness:
  "\<exists>s'. scheduleNote 1 (1 / 4) barOne = Inr s'
     \<and> filter isPlayBass (newCalls barOne s') = [PlayBass (1 / 4) (getFreq barOne (Some (- 2)) 0)]
     \<and> getFreq barOne (Some (- 2)) 0 = Some (55 * 2 powr (- 4 / 12))
     \<and> getFreq barOne (Some 0) 0 = Some 55"
proof -
  obtain s' where s': "scheduleNote 1 (1 / 4) barOne = Inr s'"
    using barOne_note by blast
  have slot: "array_get (bassPattern barOne) (int 1) = Some (Some 0)"
    using barOne_fields(3) by simp
  obtain q where q: "currentChordSequence barOne = Some q"
    and f: "filter isPlayBass (newCalls barOne s') =
          [PlayBass (1 / 4) (getFreq barOne (array_get q (int (globalBar barOne mod 4))) 0)]"
    using bass_root_substitution[OF barOne_fields(1) slot barOne_fields(4) barOne_fields(5) s']
    by blast
  have "q = [0, - 2, 0, - 2]"
    using q by (simp add: barOne_fields)
  then have bass: "filter isPlayBass (newCalls barOne s') =
          [PlayBass (1 / 4) (getFreq barOne (Some (- 2)) 0)]"
    using f by (simp add: barOne_fields array_get_def)
  have ne: "scale barOne \<noteq> []" and pos: "0 < baseNoteFrequency (params barOne)"
    by (simp_all add: barOne_fields)
  have f2: "getFreq barOne (Some (- 2)) 0 = Some (55 * 2 powr (- 4 / 12))"
    using getFreq_eq[OF ne pos, of "- 2" 0] by (simp add: barOne_fields)
  have f0: "getFreq barOne (Some 0) 0 = Some 55"
    using getFreq_eq[OF ne pos, of 0 0] by (simp add: barOne_fields)
  from s' bass f2 f0 show ?thesis by blast
qed

lemma engine0_fields:
  "ctx engine0 = None" "scale engine0 = [0, 1, 3, 5, 7, 8, 10]"
  "baseNoteFrequency (params engine0) = 55" "currentGestures engine0 = defaultGestures"
  by (simp_all add: engine0_eq engine0_explicit_def fallback_fields)

text \<open>Claim C7 for the degree -9 on the seven-tone scale of the fallback engine.\<close>

theorem getFreq_in_bounds_witness:
  "scale engine0 \<noteq> [] \<and> 0 < baseNoteFrequency (params engine0)
   \<and> normDegree (- 9) (int (length (scale engine0))) = 5
   \<and> array_get (scale engine0) (normDegree (- 9) (int (length (scale engine0)))) = Some 8
   \<and> getFreq engine0 (Some (- 9)) 0 = Some (55 * 2 powr (- 16 / 12))"
  using getFreq_in_bounds[of engine0 "- 9"]
  by (simp add: engine0_fields normDegree_mod)

text \<open>Claim C9 on the engine that has just been constructed.\<close>

theorem not_constructed_noop_witness:
  "ctx engine0 = None
   \<and> scheduleNote 0 0 engine0 = Inr engine0
   \<and> updateControlParams unseenFist engine0 = Inr engine0
   \<and> currentGestures engine0 = defaultGestures"
  using not_constructed_noop[of engine0 0 0 unseenFist]
  by (simp add: engine0_fields)

text \<open>Claim C10 on the fallback engine, at step 1 of bar 1.\<close>

theorem generated_bass_is_root_witness:
  "rootOrEmpty (bassPattern engine0)
   \<and> bassPattern barOne = bassPattern engine0
   \<and> (\<exists>s'. scheduleNote 1 (1 / 4) barOne = Inr s'
        \<and> list_all (\<lambda>c. c = PlayBass (1 / 4) (getFreq barOne (Some (- 2)) 0))
              (filter isPlayBass (newCalls barOne s')))"
proof -
  have e: "engine0 = fst (generateComposition (constRng (1 / 2)) (fieldDefaults fallbackParams))"
    by (simp add: engine0_def newAudioEngine_def)
  obtain s' where s': "scheduleNote 1 (1 / 4) barOne = Inr s'"
    using barOne_note by blast
  note g = generated_bass_is_root[of "constRng (1 / 2)" "fieldDefaults fallbackParams",
      unfolded e[symmetric]]
  have r: "rootOrEmpty (bassPattern engine0)"
    using g by (rule conjunct1)
  have "list_all (\<lambda>c. \<exists>q. currentChordSequence barOne = Some q
                  \<and> c = PlayBass (1 / 4) (getFreq barOne (array_get q (int (globalBar barOne mod 4))) 0))
              (filter isPlayBass (newCalls barOne s'))"
    using g[THEN conjunct2, rule_format, of barOne 1 "1 / 4" s'] s'
    by (simp add: barOne_fields)
  then have "list_all (\<lambda>c. c = PlayBass (1 / 4) (getFreq barOne (Some (- 2)) 0))
              (filter isPlayBass (newCalls barOne s'))"
    by (simp add: barOne_fields array_get_def)
  with r s' show ?thesis
    by (auto simp add: barOne_fields)
qed

text \<open>
  The intensity formula of \<open>nextNote\<close> is monotone in the bar, zero at bar 0 and one from
  bar 64 on; and through the first run of a new engine the intensity is the one of the bar
  counter.
\<close>

lemma intensity_formula:
  "min 1 (real b / 64) \<le> min 1 (real (b + k) / 64)"
  "min 1 (real 0 / 64) = (0::real)"
  "64 \<le> b \<Longrightarrow> min 1 (real b / 64) = (1::real)"
  by (simp_all add: min_def field_simps)

lemma gen_intensity: "intensity (fst (generateComposition r s)) = intensity s"
  by (simp add: generateComposition_def Let_def split: prod.splits)

lemma first_run_intensityInv:
  "intensityInv ((nextNote ^^ k) (resultOr d (start c0 (fst (newAudioEngine p r)))))"
proof -
  have "intensity (fst (newAudioEngine p r)) = 0"
    by (simp add: newAudioEngine_def gen_intensity fieldDefaults_def)
  then have "intensityInv (resultOr d (start c0 (fst (newAudioEngine p r))))"
    using start_result[of c0 "fst (newAudioEngine p r)" d] by (simp add: intensityInv_def)
  then show ?thesis by (rule funpow_nextNote_intensityInv)
qed

end
